theory Spec2Isabelle
  imports Main "HOL-Library.Word"
begin

section \<open>The bridge of cozorocks/bridge/db.h over an external storage engine\<close>

text \<open>
  The header db.h holds four classes: SnapshotBridge, SstFileWriterBridge, RocksDbBridge
  and RustComparator. Every member function is a short sequence of calls into the storage
  engine (rocksdb) and into the helpers of common.h and slice.h. The engine is an external
  collaborator, so the model fixes nothing about its answers: an environment record carries
  the engine's answers as functions of the history of events so far, and each bridge
  operation takes the history and returns it extended by the events it caused. A claim
  about what the bridge asks of the engine, and in which order, is then a claim about the
  events an operation appends.
\<close>

subsection \<open>Opaque engine objects\<close>

text \<open>
  Pointers and option bundles of the engine that the bridge only passes around. Each is a
  tagged number, so that two objects can be told apart and nothing else is known of them.
\<close>

datatype DB = DB nat
datatype TransactionDB = TransactionDB nat
datatype ColumnFamilyHandle = ColumnFamilyHandle nat
datatype Snapshot = Snapshot nat
datatype Options = Options nat
datatype EnvOptions = EnvOptions nat
datatype WriteOptions = WriteOptions nat
datatype CompactRangeOptions = CompactRangeOptions nat

subsection \<open>Byte views (slice.h)\<close>

text \<open>
  A host view \<open>rust::Slice<const uint8_t>\<close> (named RustBytes in the bridge) and an engine
  view \<open>Slice\<close> are both a pointer and a length; neither owns the bytes.
\<close>

record RustBytes =
  rb_ptr :: nat
  rb_len :: nat

record Slice =
  slice_data :: nat
  slice_size :: nat

text \<open>
  Modelled from the spec: \<open>convert_slice\<close> and \<open>convert_slice_back\<close> live in slice.h, which
  is not among the sources. Section 4.1: given a read-only host byte view (pointer and
  length, no ownership transfer) produce an engine-native byte-range view referencing the
  same memory, and the reverse conversion for views the engine hands back; no copying.
\<close>

definition convert_slice :: "RustBytes \<Rightarrow> Slice" where
  "convert_slice d = \<lparr>slice_data = rb_ptr d, slice_size = rb_len d\<rparr>"

definition convert_slice_back :: "Slice \<Rightarrow> RustBytes" where
  "convert_slice_back s = \<lparr>rb_ptr = slice_data s, rb_len = slice_size s\<rparr>"

text \<open>The bytes a view denotes in a memory \<open>m\<close> (address to byte).\<close>

definition slice_bytes :: "(nat \<Rightarrow> 8 word) \<Rightarrow> Slice \<Rightarrow> 8 word list" where
  "slice_bytes m s = map m [slice_data s ..< slice_data s + slice_size s]"

definition rust_bytes :: "(nat \<Rightarrow> 8 word) \<Rightarrow> RustBytes \<Rightarrow> 8 word list" where
  "rust_bytes m d = map m [rb_ptr d ..< rb_ptr d + rb_len d]"

subsection \<open>Status values\<close>

text \<open>
  Modelled from the spec: the engine's \<open>Status\<close> and the caller-visible \<open>RocksDbStatus\<close>
  are declared outside db.h. Section 6: a status value is an enumerated code (Ok, NotFound,
  Corruption, InvalidArgument, IOError, Busy, ...) plus an optional diagnostic string.
  \<open>ok\<close> is the engine's test for the code Ok, which \<open>del_range\<close> calls.
\<close>

datatype StatusCode =
  kOk | kNotFound | kCorruption | kInvalidArgument | kIOError | kBusy | kOtherCode nat

record Status =
  code :: StatusCode
  message :: "string option"

record RocksDbStatus =
  rs_code :: StatusCode
  rs_message :: "string option"

definition ok :: "Status \<Rightarrow> bool" where
  "ok s = (code s = kOk)"

subsection \<open>Engine requests and the event history\<close>

record SstFileWriter =
  sfw_env_options :: EnvOptions
  sfw_options :: Options

text \<open>
  Modelled from the spec: the engine's ingestion options are declared in the engine's
  headers. Section 4.6 tells a source file that is consumed (moved) from one that is
  copied; the engine's option bundle carries that choice as its flag \<open>move_files\<close>. The
  bridge never reads or writes any other knob of the bundle.
\<close>

record IngestExternalFileOptions =
  move_files :: bool

text \<open>The two fields of the engine's write optimizations that \<open>del_range\<close> assigns.\<close>

record TransactionDBWriteOptimizations =
  skip_concurrency_control :: bool
  skip_duplicate_key_check :: bool

text \<open>
  A write batch is the list of mutations requested on it, in order; a fresh batch is empty.
\<close>

datatype batch_op = OpDeleteRange ColumnFamilyHandle Slice Slice

type_synonym WriteBatch = "batch_op list"

text \<open>
  The engine calls of db.h that answer with a \<open>Status\<close>. \<open>BatchDeleteRange\<close> carries the
  batch as it was before the call. \<open>CompactRange\<close> takes its two bounds by pointer, which
  may be null in the engine's interface: an option.
\<close>

datatype call =
    SstOpen SstFileWriter string
  | SstPut SstFileWriter Slice Slice
  | SstFinish SstFileWriter
  | IngestExternalFile DB ColumnFamilyHandle "string list" IngestExternalFileOptions
  | BatchDeleteRange WriteBatch ColumnFamilyHandle Slice Slice
  | Write TransactionDB WriteOptions TransactionDBWriteOptimizations WriteBatch
  | CompactRange TransactionDB CompactRangeOptions ColumnFamilyHandle "Slice option" "Slice option"

text \<open>
  What the bridge did, in order: an engine call with the status the engine answered, a
  fetch of a column family's options with the options the engine answered, the release
  of a snapshot, and a call of the status adapter \<open>write_status\<close> with its first argument.
\<close>

datatype event =
    Called call Status
  | GotOptions DB ColumnFamilyHandle Options
  | ReleasedSnapshot DB Snapshot
  | WroteStatus Status

text \<open>
  The environment of the bridge: everything db.h uses and does not define.
  \<^item> \<open>write_status\<close> is the status adapter of common.h: from the engine's status and the
    old contents of the output parameter to its new contents.
  \<^item> \<open>GetBaseDB\<close> is the engine's accessor from a transactional database to its base.
  \<^item> \<open>GetOptions\<close> and \<open>respond\<close> are the engine's answers, which may depend on all that
    happened before.
  \<^item> \<open>read_past_end\<close> is what an unchecked read of a handle vector at an index past its
    end yields: the memory there is not the bridge's, so its contents come from outside.
  \<^item> the remaining fields are the values of the engine's default constructors.
\<close>

record env =
  write_status :: "Status \<Rightarrow> RocksDbStatus \<Rightarrow> RocksDbStatus"
  GetBaseDB :: "TransactionDB \<Rightarrow> DB"
  GetOptions :: "event list \<Rightarrow> DB \<Rightarrow> ColumnFamilyHandle \<Rightarrow> Options"
  respond :: "event list \<Rightarrow> call \<Rightarrow> Status"
  read_past_end :: "ColumnFamilyHandle list \<Rightarrow> nat \<Rightarrow> ColumnFamilyHandle"
  EnvOptions_default :: EnvOptions
  IngestExternalFileOptions_default :: IngestExternalFileOptions
  WriteOptions_default :: WriteOptions
  TransactionDBWriteOptimizations_default :: TransactionDBWriteOptimizations
  CompactRangeOptions_default :: CompactRangeOptions

definition engine_call :: "env \<Rightarrow> call \<Rightarrow> event list \<Rightarrow> Status \<times> event list" where
  "engine_call E c tr = (let s = respond E tr c in (s, tr @ [Called c s]))"

definition get_options_call ::
  "env \<Rightarrow> DB \<Rightarrow> ColumnFamilyHandle \<Rightarrow> event list \<Rightarrow> Options \<times> event list" where
  "get_options_call E d cf tr = (let opts = GetOptions E tr d cf in (opts, tr @ [GotOptions d cf opts]))"

definition write_status_call ::
  "env \<Rightarrow> Status \<Rightarrow> RocksDbStatus \<Rightarrow> event list \<Rightarrow> RocksDbStatus \<times> event list" where
  "write_status_call E s status tr = (write_status E s status, tr @ [WroteStatus s])"

subsection \<open>SnapshotBridge\<close>

text \<open>
  The field \<open>db\<close> of SnapshotBridge is named \<open>snapshot_db\<close> here, since RocksDbBridge has a
  field \<open>db\<close> of another type.
\<close>

record SnapshotBridge =
  snapshot :: Snapshot
  snapshot_db :: DB

definition SnapshotBridge_new :: "Snapshot \<Rightarrow> DB \<Rightarrow> SnapshotBridge" where
  "SnapshotBridge_new snapshot0 db0 = \<lparr>snapshot = snapshot0, snapshot_db = db0\<rparr>"

text \<open>The destructor: \<open>db->ReleaseSnapshot(snapshot)\<close>.\<close>

definition SnapshotBridge_destroy :: "SnapshotBridge \<Rightarrow> event list \<Rightarrow> event list" where
  "SnapshotBridge_destroy this tr = tr @ [ReleasedSnapshot (snapshot_db this) (snapshot this)]"

text \<open>The snapshot releases recorded in a history, each with the database it went through.\<close>

fun releases :: "event list \<Rightarrow> (DB \<times> Snapshot) list" where
  "releases [] = []"
| "releases (ReleasedSnapshot d s # es) = (d, s) # releases es"
| "releases (_ # es) = releases es"

subsection \<open>SstFileWriterBridge\<close>

record SstFileWriterBridge =
  inner :: SstFileWriter

definition SstFileWriterBridge_new :: "EnvOptions \<Rightarrow> Options \<Rightarrow> SstFileWriterBridge" where
  "SstFileWriterBridge_new eopts opts = \<lparr>inner = \<lparr>sfw_env_options = eopts, sfw_options = opts\<rparr>\<rparr>"

definition finish ::
  "env \<Rightarrow> SstFileWriterBridge \<Rightarrow> RocksDbStatus \<Rightarrow> event list \<Rightarrow> RocksDbStatus \<times> event list" where
  "finish E this status tr =
     (let (s, tr1) = engine_call E (SstFinish (inner this)) tr
      in write_status_call E s status tr1)"

definition put ::
  "env \<Rightarrow> SstFileWriterBridge \<Rightarrow> RustBytes \<Rightarrow> RustBytes \<Rightarrow> RocksDbStatus \<Rightarrow> event list
     \<Rightarrow> RocksDbStatus \<times> event list" where
  "put E this key val status tr =
     (let (s, tr1) = engine_call E (SstPut (inner this) (convert_slice key) (convert_slice val)) tr
      in write_status_call E s status tr1)"

subsection \<open>RustComparator\<close>

text \<open>
  The callback \<open>ext_cmp\<close> answers a signed byte (\<open>std::int8_t\<close>); \<open>Compare\<close> returns the
  engine's \<open>int\<close>, 32 bits wide, so the return statement converts by sign extension.
\<close>

record RustComparator =
  name :: string
  ext_cmp :: "RustBytes \<Rightarrow> RustBytes \<Rightarrow> 8 word"
  can_different_bytes_be_equal :: bool

definition RustComparator_new ::
  "string \<Rightarrow> bool \<Rightarrow> (RustBytes \<Rightarrow> RustBytes \<Rightarrow> 8 word) \<Rightarrow> RustComparator" where
  "RustComparator_new name0 flag0 f =
     \<lparr>name = name0, ext_cmp = f, can_different_bytes_be_equal = flag0\<rparr>"

definition Compare :: "RustComparator \<Rightarrow> Slice \<Rightarrow> Slice \<Rightarrow> 32 word" where
  "Compare this a b = signed (ext_cmp this (convert_slice_back a) (convert_slice_back b))"

text \<open>
  \<open>Name\<close> returns \<open>name.c_str()\<close>: read as a C string, it ends before the first NUL
  character of the stored name.
\<close>

definition Name :: "RustComparator \<Rightarrow> string" where
  "Name this = takeWhile (\<lambda>c. c \<noteq> CHR 0x00) (name this)"

definition CanKeysWithDifferentByteContentsBeEqual :: "RustComparator \<Rightarrow> bool" where
  "CanKeysWithDifferentByteContentsBeEqual this = can_different_bytes_be_equal this"

text \<open>
  The two hooks take the string to shorten by pointer and have an empty body. Each is
  modelled by the contents of that string after the call.
\<close>

definition FindShortestSeparator :: "RustComparator \<Rightarrow> string \<Rightarrow> Slice \<Rightarrow> string" where
  "FindShortestSeparator this start limit = start"

definition FindShortSuccessor :: "RustComparator \<Rightarrow> string \<Rightarrow> string" where
  "FindShortSuccessor this key = key"

subsection \<open>RocksDbBridge\<close>


text \<open>
  The two comparators are owned through \<open>unique_ptr<Comparator>\<close>, which may be empty; the
  only comparator class of the bridge is RustComparator.
\<close>

record RocksDbBridge =
  pri_comparator :: "RustComparator option"
  snd_comparator :: "RustComparator option"
  db :: TransactionDB
  cf_handles :: "ColumnFamilyHandle list"
  destroy_on_exit :: bool
  db_path :: string

definition get_base_db :: "env \<Rightarrow> RocksDbBridge \<Rightarrow> DB" where
  "get_base_db E this = GetBaseDB E (db this)"

definition get_db_path :: "RocksDbBridge \<Rightarrow> string" where
  "get_db_path this = db_path this"

text \<open>
  \<open>cf_handles[idx]\<close> is \<open>std::vector::operator[]\<close>, which does not check its index, and
  no operation compares \<open>idx\<close> with the size of the vector. Within the vector the read
  yields the handle stored there. Past the end it is an out-of-bounds access (undefined
  behaviour); the operation does not branch on it and goes on with whatever the read
  yields, which the model takes from the environment.
\<close>

definition cf_at :: "env \<Rightarrow> ColumnFamilyHandle list \<Rightarrow> nat \<Rightarrow> ColumnFamilyHandle" where
  "cf_at E hs idx = (if idx < length hs then hs ! idx else read_past_end E hs idx)"

text \<open>
  \<open>get_sst_writer\<close> returns a \<open>unique_ptr\<close>, modelled as an option (\<open>None\<close> the null pointer),
  next to the new contents of the status parameter and the history. The pointer comes from
  \<open>make_unique\<close>, which never yields null. The locals \<open>db_\<close>, \<open>options_\<close> and \<open>path_\<close> of the
  source are \<open>db0\<close>, \<open>options0\<close> and \<open>path0\<close> here, and the parameter \<open>end\<close> is \<open>end_key\<close>.
\<close>

definition get_sst_writer ::
  "env \<Rightarrow> RocksDbBridge \<Rightarrow> string \<Rightarrow> nat \<Rightarrow> RocksDbStatus \<Rightarrow> event list
     \<Rightarrow> SstFileWriterBridge option \<times> RocksDbStatus \<times> event list" where
  "get_sst_writer E this path idx status tr =
     (let db0 = get_base_db E this;
          cf = cf_at E (cf_handles this) idx;
          (options0, tr1) = get_options_call E db0 cf tr;
          sst_file_writer = SstFileWriterBridge_new (EnvOptions_default E) options0;
          path0 = path;
          (s, tr2) = engine_call E (SstOpen (inner sst_file_writer) path0) tr1;
          (status1, tr3) = write_status_call E s status tr2
      in (Some sst_file_writer, status1, tr3))"

definition ingest_sst ::
  "env \<Rightarrow> RocksDbBridge \<Rightarrow> string \<Rightarrow> nat \<Rightarrow> RocksDbStatus \<Rightarrow> event list
     \<Rightarrow> RocksDbStatus \<times> event list" where
  "ingest_sst E this path idx status tr =
     (let ifo = IngestExternalFileOptions_default E;
          db0 = get_base_db E this;
          path0 = path;
          cf = cf_at E (cf_handles this) idx;
          (s, tr1) = engine_call E (IngestExternalFile db0 cf [path0] ifo) tr
      in write_status_call E s status tr1)"

definition del_range ::
  "env \<Rightarrow> RocksDbBridge \<Rightarrow> RustBytes \<Rightarrow> RustBytes \<Rightarrow> nat \<Rightarrow> RocksDbStatus \<Rightarrow> event list
     \<Rightarrow> RocksDbStatus \<times> event list" where
  "del_range E this start end_key idx status tr =
     (let batch = [];
          cf = cf_at E (cf_handles this) idx;
          (s, tr1) =
            engine_call E (BatchDeleteRange batch cf (convert_slice start) (convert_slice end_key)) tr;
          batch1 = batch @ [OpDeleteRange cf (convert_slice start) (convert_slice end_key)]
      in if \<not> ok s then write_status_call E s status tr1
         else
           (let w_opts = WriteOptions_default E;
                optimizations = TransactionDBWriteOptimizations_default E;
                optimizations1 = optimizations\<lparr>skip_concurrency_control := True\<rparr>;
                optimizations2 = optimizations1\<lparr>skip_duplicate_key_check := True\<rparr>;
                (s2, tr2) = engine_call E (Write (db this) w_opts optimizations2 batch1) tr1
            in write_status_call E s2 status tr2))"

definition compact_range ::
  "env \<Rightarrow> RocksDbBridge \<Rightarrow> RustBytes \<Rightarrow> RustBytes \<Rightarrow> nat \<Rightarrow> RocksDbStatus \<Rightarrow> event list
     \<Rightarrow> RocksDbStatus \<times> event list" where
  "compact_range E this start end_key idx status tr =
     (let options0 = CompactRangeOptions_default E;
          cf = cf_at E (cf_handles this) idx;
          start_s = convert_slice start;
          end_s = convert_slice end_key;
          (s, tr1) = engine_call E (CompactRange (db this) options0 cf (Some start_s) (Some end_s)) tr
      in write_status_call E s status tr1)"

subsection \<open>Reading a history\<close>

text \<open>The statuses the engine answered, and the statuses handed to the status adapter.\<close>

fun engine_answers :: "event list \<Rightarrow> Status list" where
  "engine_answers [] = []"
| "engine_answers (Called c s # es) = s # engine_answers es"
| "engine_answers (_ # es) = engine_answers es"

fun adapter_inputs :: "event list \<Rightarrow> Status list" where
  "adapter_inputs [] = []"
| "adapter_inputs (WroteStatus s # es) = s # adapter_inputs es"
| "adapter_inputs (_ # es) = adapter_inputs es"

text \<open>The batches committed, and the move-or-copy choice of every ingestion requested.\<close>

fun commits :: "event list \<Rightarrow> (TransactionDBWriteOptimizations \<times> WriteBatch) list" where
  "commits [] = []"
| "commits (Called (Write d w opt b) s # es) = (opt, b) # commits es"
| "commits (_ # es) = commits es"

fun ingest_moves :: "event list \<Rightarrow> bool list" where
  "ingest_moves [] = []"
| "ingest_moves (Called (IngestExternalFile d cf fs ifo) s # es) = move_files ifo # ingest_moves es"
| "ingest_moves (_ # es) = ingest_moves es"

text \<open>
  The rule of section 4.2, "every engine-call site in the bridge must route through this
  exactly once", read on a history: every engine call that answers a status is followed at
  once by one call of the adapter on that very status, and the adapter is called nowhere
  else.
\<close>

fun routed_exactly_once :: "event list \<Rightarrow> bool" where
  "routed_exactly_once [] = True"
| "routed_exactly_once (Called c s # WroteStatus s' # es) = (s' = s \<and> routed_exactly_once es)"
| "routed_exactly_once (Called c s # es) = False"
| "routed_exactly_once (WroteStatus s # es) = False"
| "routed_exactly_once (GotOptions d cf opts # es) = routed_exactly_once es"
| "routed_exactly_once (ReleasedSnapshot d sn # es) = routed_exactly_once es"

subsection \<open>Sample environments\<close>

text \<open>
  A status adapter that copies code and message, and two engines. Both construct their
  option bundles as the engine's headers declare the defaults: files are copied on
  ingestion (\<open>move_files\<close> off) and no write optimization is on. The first engine answers
  Ok to every call. The second refuses to add a range deletion to a batch and fails to
  open a file for a bulk writer. In both, a read past the end of a handle vector finds a
  stray handle that belongs to no column family of the bridge.
\<close>

definition copy_status :: "Status \<Rightarrow> RocksDbStatus \<Rightarrow> RocksDbStatus" where
  "copy_status s status = \<lparr>rs_code = code s, rs_message = message s\<rparr>"

definition status_ok :: Status where
  "status_ok = \<lparr>code = kOk, message = None\<rparr>"

definition status_invalid :: Status where
  "status_invalid = \<lparr>code = kInvalidArgument, message = Some ''refused''\<rparr>"

definition status_io :: Status where
  "status_io = \<lparr>code = kIOError, message = Some ''cannot open''\<rparr>"

definition agreeing_engine :: env where
  "agreeing_engine =
     \<lparr>write_status = copy_status,
      GetBaseDB = (\<lambda>t. case t of TransactionDB n \<Rightarrow> DB n),
      GetOptions = (\<lambda>tr d cf. case cf of ColumnFamilyHandle n \<Rightarrow> Options n),
      respond = (\<lambda>tr c. status_ok),
      read_past_end = (\<lambda>hs i. ColumnFamilyHandle (900 + i)),
      EnvOptions_default = EnvOptions 0,
      IngestExternalFileOptions_default = \<lparr>move_files = False\<rparr>,
      WriteOptions_default = WriteOptions 0,
      TransactionDBWriteOptimizations_default =
        \<lparr>skip_concurrency_control = False, skip_duplicate_key_check = False\<rparr>,
      CompactRangeOptions_default = CompactRangeOptions 0\<rparr>"

definition refusing_engine :: env where
  "refusing_engine =
     agreeing_engine\<lparr>respond :=
       (\<lambda>tr c. case c of
                  BatchDeleteRange b cf x y \<Rightarrow> status_invalid
                | SstOpen w p \<Rightarrow> status_io
                | _ \<Rightarrow> status_ok)\<rparr>"

definition two_family_bridge :: RocksDbBridge where
  "two_family_bridge =
     \<lparr>pri_comparator = None, snd_comparator = None, db = TransactionDB 7,
      cf_handles = [ColumnFamilyHandle 10, ColumnFamilyHandle 11],
      destroy_on_exit = False, db_path = ''/tmp/db''\<rparr>"

definition status_unset :: RocksDbStatus where
  "status_unset = \<lparr>rs_code = kOk, rs_message = None\<rparr>"

definition key_a :: RustBytes where
  "key_a = \<lparr>rb_ptr = 4096, rb_len = 3\<rparr>"

definition key_b :: RustBytes where
  "key_b = \<lparr>rb_ptr = 8192, rb_len = 5\<rparr>"

subsection \<open>Reading the result of an operation\<close>

text \<open>The history an operation of the database handle returns.\<close>

definition events_of :: "RocksDbStatus \<times> event list \<Rightarrow> event list" where
  "events_of r = (case r of (status, tr) \<Rightarrow> tr)"

text \<open>
  The status adapter ran once among the events \<open>new\<close> of an operation, on the last answer
  of the engine, and the status parameter went from \<open>st\<close> to the adapter's output \<open>st1\<close>.
\<close>

definition once_on_last :: "env \<Rightarrow> RocksDbStatus \<Rightarrow> RocksDbStatus \<Rightarrow> event list \<Rightarrow> bool" where
  "once_on_last E st st1 new =
     (engine_answers new \<noteq> [] \<and> adapter_inputs new = [last (engine_answers new)]
      \<and> st1 = write_status E (last (engine_answers new)) st)"

section \<open>What each operation does, step by step\<close>

text \<open>
  Each operation unfolded into the status it leaves and the events it appends. An index
  within the handle vector is assumed where the operation reads the vector.
\<close>

lemma finish_events:
  "finish E w st tr =
     (write_status E (respond E tr (SstFinish (inner w))) st,
      tr @ [Called (SstFinish (inner w)) (respond E tr (SstFinish (inner w))),
            WroteStatus (respond E tr (SstFinish (inner w)))])"
  by (simp add: finish_def engine_call_def write_status_call_def Let_def)

lemma put_events:
  "put E w k v st tr =
     (write_status E (respond E tr (SstPut (inner w) (convert_slice k) (convert_slice v))) st,
      tr @ [Called (SstPut (inner w) (convert_slice k) (convert_slice v))
              (respond E tr (SstPut (inner w) (convert_slice k) (convert_slice v))),
            WroteStatus (respond E tr (SstPut (inner w) (convert_slice k) (convert_slice v)))])"
  by (simp add: put_def engine_call_def write_status_call_def Let_def)

lemma get_sst_writer_events:
  assumes "idx < length (cf_handles B)"
  shows "get_sst_writer E B path idx st tr =
     (let d = GetBaseDB E (db B);
          cf = cf_handles B ! idx;
          opts = GetOptions E tr d cf;
          w = SstFileWriterBridge_new (EnvOptions_default E) opts;
          tr1 = tr @ [GotOptions d cf opts];
          s = respond E tr1 (SstOpen (inner w) path)
      in (Some w, write_status E s st, tr1 @ [Called (SstOpen (inner w) path) s, WroteStatus s]))"
  using assms
  by (simp add: get_sst_writer_def get_base_db_def cf_at_def get_options_call_def
      engine_call_def write_status_call_def Let_def)

lemma ingest_sst_events:
  assumes "idx < length (cf_handles B)"
  shows "ingest_sst E B path idx st tr =
     (let c = IngestExternalFile (GetBaseDB E (db B)) (cf_handles B ! idx) [path]
                (IngestExternalFileOptions_default E);
          s = respond E tr c
      in (write_status E s st, tr @ [Called c s, WroteStatus s]))"
  using assms
  by (simp add: ingest_sst_def get_base_db_def cf_at_def engine_call_def write_status_call_def Let_def)

lemma del_range_refused_events:
  assumes "idx < length (cf_handles B)"
    and "\<not> ok (respond E tr (BatchDeleteRange [] (cf_handles B ! idx) (convert_slice a) (convert_slice b)))"
  shows "del_range E B a b idx st tr =
     (let c = BatchDeleteRange [] (cf_handles B ! idx) (convert_slice a) (convert_slice b);
          s = respond E tr c
      in (write_status E s st, tr @ [Called c s, WroteStatus s]))"
  using assms
  by (simp add: del_range_def cf_at_def engine_call_def write_status_call_def Let_def)

lemma del_range_accepted_events:
  assumes "idx < length (cf_handles B)"
    and "ok (respond E tr (BatchDeleteRange [] (cf_handles B ! idx) (convert_slice a) (convert_slice b)))"
  shows "del_range E B a b idx st tr =
     (let cf = cf_handles B ! idx;
          c = BatchDeleteRange [] cf (convert_slice a) (convert_slice b);
          s = respond E tr c;
          tr1 = tr @ [Called c s];
          c2 = Write (db B) (WriteOptions_default E)
                 ((TransactionDBWriteOptimizations_default E)
                    \<lparr>skip_concurrency_control := True, skip_duplicate_key_check := True\<rparr>)
                 [OpDeleteRange cf (convert_slice a) (convert_slice b)];
          s2 = respond E tr1 c2
      in (write_status E s2 st, tr1 @ [Called c2 s2, WroteStatus s2]))"
  using assms
  by (simp add: del_range_def cf_at_def engine_call_def write_status_call_def Let_def)

lemma compact_range_events:
  assumes "idx < length (cf_handles B)"
  shows "compact_range E B a b idx st tr =
     (let c = CompactRange (db B) (CompactRangeOptions_default E) (cf_handles B ! idx)
                (Some (convert_slice a)) (Some (convert_slice b));
          s = respond E tr c
      in (write_status E s st, tr @ [Called c s, WroteStatus s]))"
  using assms
  by (simp add: compact_range_def cf_at_def engine_call_def write_status_call_def Let_def)

lemma out_of_range_steps:
  assumes "length (cf_handles B) \<le> idx"
  shows "get_sst_writer E B path idx st tr =
     (let d = GetBaseDB E (db B);
          cf = read_past_end E (cf_handles B) idx;
          opts = GetOptions E tr d cf;
          w = \<lparr>inner = \<lparr>sfw_env_options = EnvOptions_default E, sfw_options = opts\<rparr>\<rparr>;
          tr1 = tr @ [GotOptions d cf opts];
          s = respond E tr1 (SstOpen (inner w) path)
      in (Some w, write_status E s st, tr1 @ [Called (SstOpen (inner w) path) s, WroteStatus s]))"
    and "ingest_sst E B path idx st tr =
     (let c = IngestExternalFile (GetBaseDB E (db B)) (read_past_end E (cf_handles B) idx) [path]
                (IngestExternalFileOptions_default E);
          s = respond E tr c
      in (write_status E s st, tr @ [Called c s, WroteStatus s]))"
    and "del_range E B a b idx st tr =
     (let cf = read_past_end E (cf_handles B) idx;
          c = BatchDeleteRange [] cf (convert_slice a) (convert_slice b);
          s = respond E tr c;
          tr1 = tr @ [Called c s]
      in if \<not> ok s then (write_status E s st, tr1 @ [WroteStatus s])
         else
           (let c2 = Write (db B) (WriteOptions_default E)
                       ((TransactionDBWriteOptimizations_default E)
                          \<lparr>skip_concurrency_control := True, skip_duplicate_key_check := True\<rparr>)
                       [OpDeleteRange cf (convert_slice a) (convert_slice b)];
                s2 = respond E tr1 c2
            in (write_status E s2 st, tr1 @ [Called c2 s2, WroteStatus s2])))"
    and "compact_range E B a b idx st tr =
     (let c = CompactRange (db B) (CompactRangeOptions_default E) (read_past_end E (cf_handles B) idx)
                (Some (convert_slice a)) (Some (convert_slice b));
          s = respond E tr c
      in (write_status E s st, tr @ [Called c s, WroteStatus s]))"
  using assms
  by (simp_all add: get_sst_writer_def ingest_sst_def del_range_def compact_range_def cf_at_def
      get_base_db_def get_options_call_def engine_call_def write_status_call_def
      SstFileWriterBridge_new_def Let_def)

text \<open>The status adapter in each operation.\<close>

lemma finish_once: "\<exists>new st1. finish E w st tr = (st1, tr @ new)
    \<and> once_on_last E st st1 new \<and> routed_exactly_once new"
  by (simp add: finish_events once_on_last_def)

lemma put_once: "\<exists>new st1. put E w k v st tr = (st1, tr @ new)
    \<and> once_on_last E st st1 new \<and> routed_exactly_once new"
  by (simp add: put_events once_on_last_def)

lemma get_sst_writer_once:
  assumes "idx < length (cf_handles B)"
  shows "\<exists>new st1 w. get_sst_writer E B path idx st tr = (w, st1, tr @ new)
    \<and> once_on_last E st st1 new \<and> routed_exactly_once new"
  by (simp add: get_sst_writer_events [OF assms] once_on_last_def Let_def)

lemma ingest_sst_once:
  assumes "idx < length (cf_handles B)"
  shows "\<exists>new st1. ingest_sst E B path idx st tr = (st1, tr @ new)
    \<and> once_on_last E st st1 new \<and> routed_exactly_once new"
  by (simp add: ingest_sst_events [OF assms] once_on_last_def Let_def)

lemma compact_range_once:
  assumes "idx < length (cf_handles B)"
  shows "\<exists>new st1. compact_range E B a b idx st tr = (st1, tr @ new)
    \<and> once_on_last E st st1 new \<and> routed_exactly_once new"
  by (simp add: compact_range_events [OF assms] once_on_last_def Let_def)

lemma del_range_once:
  assumes "idx < length (cf_handles B)"
  shows "\<exists>new st1. del_range E B a b idx st tr = (st1, tr @ new)
    \<and> once_on_last E st st1 new
    \<and> routed_exactly_once new = (\<not> ok (hd (engine_answers new)))"
proof (cases "ok (respond E tr (BatchDeleteRange [] (cf_handles B ! idx) (convert_slice a) (convert_slice b)))")
  case True
  then show ?thesis
    by (simp add: del_range_accepted_events [OF assms True] once_on_last_def Let_def)
next
  case False
  then show ?thesis
    by (simp add: del_range_refused_events [OF assms False] once_on_last_def Let_def)
qed


section \<open>Properties\<close>

text \<open>
  C1. For every column-family index that is out of range (greater than or equal to the
  number of handles), none of get_sst_writer, ingest_sst, del_range and compact_range
  checks the index. Each reads the handle vector at that index unchecked, an out-of-bounds
  access, and goes on with whatever handle the read yields to the same engine calls as for
  an index in range; the status it writes is the translation of the engine's answer, and
  the bridge itself produces no "invalid argument" status.
\<close>

theorem out_of_range_index_is_unchecked:
  assumes "length (cf_handles B) \<le> idx"
  shows "get_sst_writer E B path idx st tr =
     (let d = GetBaseDB E (db B);
          cf = read_past_end E (cf_handles B) idx;
          opts = GetOptions E tr d cf;
          w = \<lparr>inner = \<lparr>sfw_env_options = EnvOptions_default E, sfw_options = opts\<rparr>\<rparr>;
          tr1 = tr @ [GotOptions d cf opts];
          s = respond E tr1 (SstOpen (inner w) path)
      in (Some w, write_status E s st, tr1 @ [Called (SstOpen (inner w) path) s, WroteStatus s]))
   \<and> ingest_sst E B path idx st tr =
     (let c = IngestExternalFile (GetBaseDB E (db B)) (read_past_end E (cf_handles B) idx) [path]
                (IngestExternalFileOptions_default E);
          s = respond E tr c
      in (write_status E s st, tr @ [Called c s, WroteStatus s]))
   \<and> del_range E B a b idx st tr =
     (let cf = read_past_end E (cf_handles B) idx;
          c = BatchDeleteRange [] cf (convert_slice a) (convert_slice b);
          s = respond E tr c;
          tr1 = tr @ [Called c s]
      in if \<not> ok s then (write_status E s st, tr1 @ [WroteStatus s])
         else
           (let c2 = Write (db B) (WriteOptions_default E)
                       ((TransactionDBWriteOptimizations_default E)
                          \<lparr>skip_concurrency_control := True, skip_duplicate_key_check := True\<rparr>)
                       [OpDeleteRange cf (convert_slice a) (convert_slice b)];
                s2 = respond E tr1 c2
            in (write_status E s2 st, tr1 @ [Called c2 s2, WroteStatus s2])))
   \<and> compact_range E B a b idx st tr =
     (let c = CompactRange (db B) (CompactRangeOptions_default E) (read_past_end E (cf_handles B) idx)
                (Some (convert_slice a)) (Some (convert_slice b));
          s = respond E tr c
      in (write_status E s st, tr @ [Called c s, WroteStatus s]))"
  using out_of_range_steps [OF assms, of E] by (intro conjI)

theorem out_of_range_index_is_unchecked_witness:
  "length (cf_handles two_family_bridge) \<le> 5
   \<and> get_sst_writer refusing_engine two_family_bridge ''y.sst'' 5 status_unset [] =
       (Some \<lparr>inner = \<lparr>sfw_env_options = EnvOptions 0, sfw_options = Options 905\<rparr>\<rparr>,
        \<lparr>rs_code = kIOError, rs_message = Some ''cannot open''\<rparr>,
        [GotOptions (DB 7) (ColumnFamilyHandle 905) (Options 905),
         Called (SstOpen \<lparr>sfw_env_options = EnvOptions 0, sfw_options = Options 905\<rparr> ''y.sst'')
                status_io,
         WroteStatus status_io])
   \<and> ingest_sst refusing_engine two_family_bridge ''y.sst'' 5 status_unset [] =
       (\<lparr>rs_code = kOk, rs_message = None\<rparr>,
        [Called (IngestExternalFile (DB 7) (ColumnFamilyHandle 905) [''y.sst'']
                   \<lparr>move_files = False\<rparr>) status_ok,
         WroteStatus status_ok])
   \<and> del_range refusing_engine two_family_bridge key_b key_a 5 status_unset [] =
       (\<lparr>rs_code = kInvalidArgument, rs_message = Some ''refused''\<rparr>,
        [Called (BatchDeleteRange [] (ColumnFamilyHandle 905) (convert_slice key_b) (convert_slice key_a))
                status_invalid,
         WroteStatus status_invalid])
   \<and> compact_range refusing_engine two_family_bridge key_b key_a 5 status_unset [] =
       (\<lparr>rs_code = kOk, rs_message = None\<rparr>,
        [Called (CompactRange (TransactionDB 7) (CompactRangeOptions 0) (ColumnFamilyHandle 905)
                   (Some (convert_slice key_b)) (Some (convert_slice key_a))) status_ok,
         WroteStatus status_ok])"
proof -
  have h: "length (cf_handles two_family_bridge) \<le> 5"
    by (simp add: two_family_bridge_def)
  show ?thesis
    using h out_of_range_index_is_unchecked [OF h,
        of refusing_engine "''y.sst''" status_unset "[]" key_b key_a]
    by (simp add: Let_def refusing_engine_def agreeing_engine_def two_family_bridge_def
        copy_status_def status_ok_def status_io_def status_invalid_def ok_def)
qed

text \<open>
  With two column families, the index 2 and an engine that accepts every call, no
  operation fails fast: each reads past the end of the vector, hands the stray handle to
  the engine, and leaves the status Ok, not "invalid argument".
\<close>

theorem unchecked_index_counterexample:
  "get_sst_writer agreeing_engine two_family_bridge ''x.sst'' 2 status_unset [] =
       (Some \<lparr>inner = \<lparr>sfw_env_options = EnvOptions 0, sfw_options = Options 902\<rparr>\<rparr>,
        \<lparr>rs_code = kOk, rs_message = None\<rparr>,
        [GotOptions (DB 7) (ColumnFamilyHandle 902) (Options 902),
         Called (SstOpen \<lparr>sfw_env_options = EnvOptions 0, sfw_options = Options 902\<rparr> ''x.sst'')
                status_ok,
         WroteStatus status_ok])
   \<and> ingest_sst agreeing_engine two_family_bridge ''x.sst'' 2 status_unset [] =
       (\<lparr>rs_code = kOk, rs_message = None\<rparr>,
        [Called (IngestExternalFile (DB 7) (ColumnFamilyHandle 902) [''x.sst'']
                   \<lparr>move_files = False\<rparr>) status_ok,
         WroteStatus status_ok])
   \<and> del_range agreeing_engine two_family_bridge key_a key_b 2 status_unset [] =
       (\<lparr>rs_code = kOk, rs_message = None\<rparr>,
        [Called (BatchDeleteRange [] (ColumnFamilyHandle 902) (convert_slice key_a) (convert_slice key_b))
                status_ok,
         Called (Write (TransactionDB 7) (WriteOptions 0)
                   \<lparr>skip_concurrency_control = True, skip_duplicate_key_check = True\<rparr>
                   [OpDeleteRange (ColumnFamilyHandle 902) (convert_slice key_a) (convert_slice key_b)])
                status_ok,
         WroteStatus status_ok])
   \<and> compact_range agreeing_engine two_family_bridge key_a key_b 2 status_unset [] =
       (\<lparr>rs_code = kOk, rs_message = None\<rparr>,
        [Called (CompactRange (TransactionDB 7) (CompactRangeOptions 0) (ColumnFamilyHandle 902)
                   (Some (convert_slice key_a)) (Some (convert_slice key_b))) status_ok,
         WroteStatus status_ok])
   \<and> rs_code (fst (del_range agreeing_engine two_family_bridge key_a key_b 2 status_unset []))
       \<noteq> kInvalidArgument"
  by (simp add: get_sst_writer_def ingest_sst_def del_range_def compact_range_def cf_at_def
      get_base_db_def get_options_call_def engine_call_def write_status_call_def
      SstFileWriterBridge_new_def two_family_bridge_def agreeing_engine_def copy_status_def
      status_ok_def ok_def Let_def)

text \<open>
  C2. For every path and in-range index, ingest_sst asks the base database to
  ingest the one-element file list holding the path into the column family at that index,
  with the default-constructed ingestion options unchanged, and writes the translation of
  the answer. The bridge never sets the move flag, so whether the source file is moved or
  copied is the engine's default.
\<close>

theorem ingest_sst_passes_default_options:
  assumes "idx < length (cf_handles B)"
  shows "ingest_sst E B path idx st tr =
     (let c = IngestExternalFile (GetBaseDB E (db B)) (cf_handles B ! idx) [path]
                (IngestExternalFileOptions_default E);
          s = respond E tr c
      in (write_status E s st, tr @ [Called c s, WroteStatus s]))
   \<and> ingest_moves (drop (length tr) (events_of (ingest_sst E B path idx st tr)))
     = [move_files (IngestExternalFileOptions_default E)]"
  by (simp add: ingest_sst_events [OF assms] events_of_def Let_def)

theorem ingest_sst_passes_default_options_witness:
  "0 < length (cf_handles two_family_bridge)
   \<and> ingest_sst refusing_engine two_family_bridge ''z.sst'' 0 status_unset []
     = (\<lparr>rs_code = kOk, rs_message = None\<rparr>,
            [Called (IngestExternalFile (DB 7) (ColumnFamilyHandle 10) [''z.sst'']
                       \<lparr>move_files = False\<rparr>) status_ok,
             WroteStatus status_ok])
   \<and> ingest_moves (drop (length ([] :: event list))
        (events_of (ingest_sst refusing_engine two_family_bridge ''z.sst'' 0 status_unset [])))
     = [move_files (IngestExternalFileOptions_default refusing_engine)]"
proof -
  have h: "0 < length (cf_handles two_family_bridge)"
    by (simp add: two_family_bridge_def)
  show ?thesis
    using h ingest_sst_passes_default_options [OF h, of refusing_engine "''z.sst''" status_unset "[]"]
    by (simp add: Let_def refusing_engine_def agreeing_engine_def two_family_bridge_def
        copy_status_def status_ok_def events_of_def)
qed

text \<open>
  With the engine's declared default (files are copied), the ingestion that ingest_sst
  requests is a copy of the source file, not a move.
\<close>

theorem ingest_sst_copy_counterexample:
  "ingest_sst agreeing_engine two_family_bridge ''x.sst'' 1 status_unset []
     = (\<lparr>rs_code = kOk, rs_message = None\<rparr>,
            [Called (IngestExternalFile (DB 7) (ColumnFamilyHandle 11) [''x.sst'']
                       \<lparr>move_files = False\<rparr>) status_ok,
             WroteStatus status_ok])
   \<and> ingest_moves (events_of (ingest_sst agreeing_engine two_family_bridge ''x.sst'' 1 status_unset []))
     = [False]"
  by (simp add: ingest_sst_def get_base_db_def cf_at_def engine_call_def write_status_call_def
      events_of_def two_family_bridge_def agreeing_engine_def copy_status_def status_ok_def Let_def)

text \<open>
  C3. For every start, end and in-range index, del_range requests one
  delete-range mutation from start to end on that column family, on a fresh batch; when
  the engine accepts the request, it commits the batch holding exactly that mutation with
  the concurrency-control check and the duplicate-key check both skipped, and writes the
  translation of the commit's answer.
\<close>

theorem del_range_commits_one_delete_range:
  assumes "idx < length (cf_handles B)"
    and "ok (respond E tr (BatchDeleteRange [] (cf_handles B ! idx) (convert_slice a) (convert_slice b)))"
  shows "del_range E B a b idx st tr =
     (let cf = cf_handles B ! idx;
          c = BatchDeleteRange [] cf (convert_slice a) (convert_slice b);
          s = respond E tr c;
          tr1 = tr @ [Called c s];
          c2 = Write (db B) (WriteOptions_default E)
                 ((TransactionDBWriteOptimizations_default E)
                    \<lparr>skip_concurrency_control := True, skip_duplicate_key_check := True\<rparr>)
                 [OpDeleteRange cf (convert_slice a) (convert_slice b)];
          s2 = respond E tr1 c2
      in (write_status E s2 st, tr1 @ [Called c2 s2, WroteStatus s2]))
   \<and> map (\<lambda>(opt, batch). (skip_concurrency_control opt, skip_duplicate_key_check opt, batch))
       (commits (drop (length tr) (events_of (del_range E B a b idx st tr))))
     = [(True, True, [OpDeleteRange (cf_handles B ! idx) (convert_slice a) (convert_slice b)])]"
  by (simp add: del_range_accepted_events [OF assms] events_of_def Let_def)

theorem del_range_commits_one_delete_range_witness:
  "0 < length (cf_handles two_family_bridge)
   \<and> ok (respond agreeing_engine []
        (BatchDeleteRange [] (cf_handles two_family_bridge ! 0) (convert_slice key_a) (convert_slice key_b)))
   \<and> del_range agreeing_engine two_family_bridge key_a key_b 0 status_unset []
     = (\<lparr>rs_code = kOk, rs_message = None\<rparr>,
            [Called (BatchDeleteRange [] (ColumnFamilyHandle 10) (convert_slice key_a) (convert_slice key_b))
                    status_ok,
             Called (Write (TransactionDB 7) (WriteOptions 0)
                       \<lparr>skip_concurrency_control = True, skip_duplicate_key_check = True\<rparr>
                       [OpDeleteRange (ColumnFamilyHandle 10) (convert_slice key_a) (convert_slice key_b)])
                    status_ok,
             WroteStatus status_ok])"
proof -
  have h: "0 < length (cf_handles two_family_bridge)"
    by (simp add: two_family_bridge_def)
  have k: "ok (respond agreeing_engine []
        (BatchDeleteRange [] (cf_handles two_family_bridge ! 0) (convert_slice key_a) (convert_slice key_b)))"
    by (simp add: agreeing_engine_def ok_def status_ok_def)
  show ?thesis
    using h k del_range_commits_one_delete_range [OF h k, of status_unset]
    by (simp add: Let_def agreeing_engine_def two_family_bridge_def copy_status_def status_ok_def)
qed

text \<open>
  When the engine refuses the range deletion, del_range commits nothing: the history holds
  the refused request and the adapter call only.
\<close>

theorem del_range_refused_counterexample:
  "del_range refusing_engine two_family_bridge key_a key_b 0 status_unset []
     = (\<lparr>rs_code = kInvalidArgument, rs_message = Some ''refused''\<rparr>,
            [Called (BatchDeleteRange [] (ColumnFamilyHandle 10)
                       \<lparr>slice_data = 4096, slice_size = 3\<rparr> \<lparr>slice_data = 8192, slice_size = 5\<rparr>)
                    status_invalid,
             WroteStatus status_invalid])
   \<and> commits (events_of (del_range refusing_engine two_family_bridge key_a key_b 0 status_unset []))
     = []"
  by (simp add: del_range_def cf_at_def engine_call_def write_status_call_def events_of_def
      two_family_bridge_def refusing_engine_def agreeing_engine_def copy_status_def
      status_invalid_def ok_def convert_slice_def key_a_def key_b_def Let_def)


text \<open>
  C4. The hooks FindShortestSeparator and FindShortSuccessor of a comparator are no-ops:
  whatever the name, the callback and the flag can_different_bytes_be_equal the comparator
  was constructed with, the string argument holds after the call what it held before.
\<close>

theorem separator_hooks_are_noops:
  "FindShortestSeparator (RustComparator_new nm flag f) start limit = start
   \<and> FindShortSuccessor (RustComparator_new nm flag f) key = key"
  by (simp add: FindShortestSeparator_def FindShortSuccessor_def)

text \<open>
  C5. Compare of a comparator constructed from a name, a flag and a callback returns the
  value of the callback on the two views converted back to host views: the same signed
  number (so the same sign), and each converted view has the pointer and the length of the
  engine view it comes from, hence denotes the same bytes of any memory.
\<close>

theorem Compare_delegates:
  "sint (Compare (RustComparator_new nm flag f) a b)
     = sint (f (convert_slice_back a) (convert_slice_back b))
   \<and> rb_ptr (convert_slice_back a) = slice_data a \<and> rb_len (convert_slice_back a) = slice_size a
   \<and> rb_ptr (convert_slice_back b) = slice_data b \<and> rb_len (convert_slice_back b) = slice_size b
   \<and> rust_bytes m (convert_slice_back a) = slice_bytes m a
   \<and> rust_bytes m (convert_slice_back b) = slice_bytes m b"
  by (simp add: Compare_def RustComparator_new_def convert_slice_back_def
      rust_bytes_def slice_bytes_def sint_up_scast is_up)

text \<open>
  C8. Destroying a snapshot handle issues exactly one release: the history grows by one
  event, the release of the stored snapshot through the stored database reference, and the
  releases recorded afterwards are those recorded before followed by that one.
\<close>

theorem SnapshotBridge_destroy_releases_once:
  "SnapshotBridge_destroy (SnapshotBridge_new s d) tr = tr @ [ReleasedSnapshot d s]
   \<and> releases (SnapshotBridge_destroy (SnapshotBridge_new s d) tr) = releases tr @ [(d, s)]"
proof -
  have app: "releases (xs @ ys) = releases xs @ releases ys" for xs ys
    by (induction xs rule: releases.induct) simp_all
  show ?thesis
    by (simp add: SnapshotBridge_destroy_def SnapshotBridge_new_def app)
qed

text \<open>
  C6. Every operation of the bridge calls the status adapter exactly once, on
  the answer of the last engine call it made, and the caller-visible status is the
  adapter's output for that answer. In put, finish, get_sst_writer (open), ingest_sst and
  compact_range, and in del_range when the batch construction is refused, every
  status-answering engine call is thereby routed exactly once. When del_range's batch
  construction answers ok, that answer is not handed to the adapter; only the commit's is.
\<close>

theorem status_adapter_once_per_operation:
  assumes "idx < length (cf_handles B)"
  shows "(\<exists>new st1. finish E w st tr = (st1, tr @ new)
            \<and> once_on_last E st st1 new \<and> routed_exactly_once new)
   \<and> (\<exists>new st1. put E w k v st tr = (st1, tr @ new)
            \<and> once_on_last E st st1 new \<and> routed_exactly_once new)
   \<and> (\<exists>new st1 w1. get_sst_writer E B path idx st tr = (w1, st1, tr @ new)
            \<and> once_on_last E st st1 new \<and> routed_exactly_once new)
   \<and> (\<exists>new st1. ingest_sst E B path idx st tr = (st1, tr @ new)
            \<and> once_on_last E st st1 new \<and> routed_exactly_once new)
   \<and> (\<exists>new st1. compact_range E B a b idx st tr = (st1, tr @ new)
            \<and> once_on_last E st st1 new \<and> routed_exactly_once new)
   \<and> (\<exists>new st1. del_range E B a b idx st tr = (st1, tr @ new)
            \<and> once_on_last E st st1 new
            \<and> routed_exactly_once new = (\<not> ok (hd (engine_answers new))))"
  using finish_once [of E w st tr] put_once [of E w k v st tr]
    get_sst_writer_once [OF assms, of E path st tr] ingest_sst_once [OF assms, of E path st tr]
    compact_range_once [OF assms, of E a b st tr] del_range_once [OF assms, of E a b st tr]
  by (intro conjI)

theorem status_adapter_once_per_operation_witness:
  "1 < length (cf_handles two_family_bridge)
   \<and> (\<exists>new st1. finish refusing_engine (SstFileWriterBridge_new (EnvOptions 0) (Options 11))
                   status_unset [] = (st1, [] @ new)
            \<and> once_on_last refusing_engine status_unset st1 new \<and> routed_exactly_once new)
   \<and> (\<exists>new st1. put refusing_engine (SstFileWriterBridge_new (EnvOptions 0) (Options 11))
                   key_a key_b status_unset [] = (st1, [] @ new)
            \<and> once_on_last refusing_engine status_unset st1 new \<and> routed_exactly_once new)
   \<and> (\<exists>new st1 w1. get_sst_writer refusing_engine two_family_bridge ''w.sst'' 1 status_unset []
                   = (w1, st1, [] @ new)
            \<and> once_on_last refusing_engine status_unset st1 new \<and> routed_exactly_once new)
   \<and> (\<exists>new st1. ingest_sst refusing_engine two_family_bridge ''w.sst'' 1 status_unset []
                   = (st1, [] @ new)
            \<and> once_on_last refusing_engine status_unset st1 new \<and> routed_exactly_once new)
   \<and> (\<exists>new st1. compact_range refusing_engine two_family_bridge key_a key_b 1 status_unset []
                   = (st1, [] @ new)
            \<and> once_on_last refusing_engine status_unset st1 new \<and> routed_exactly_once new)
   \<and> (\<exists>new st1. del_range refusing_engine two_family_bridge key_a key_b 1 status_unset []
                   = (st1, [] @ new)
            \<and> once_on_last refusing_engine status_unset st1 new
            \<and> routed_exactly_once new = (\<not> ok (hd (engine_answers new))))"
proof -
  have h: "1 < length (cf_handles two_family_bridge)"
    by (simp add: two_family_bridge_def)
  show ?thesis
    using h status_adapter_once_per_operation [OF h, of refusing_engine
        "SstFileWriterBridge_new (EnvOptions 0) (Options 11)" status_unset "[]" key_a key_b "''w.sst''"
        key_a key_b]
    by (rule conjI)
qed

text \<open>
  On an engine that accepts everything, del_range makes two status-answering engine calls
  and one adapter call: the answer of the batch construction is never routed.
\<close>

theorem del_range_unrouted_counterexample:
  "del_range agreeing_engine two_family_bridge key_a key_b 1 status_unset []
     = (\<lparr>rs_code = kOk, rs_message = None\<rparr>,
            [Called (BatchDeleteRange [] (ColumnFamilyHandle 11) (convert_slice key_a) (convert_slice key_b))
                    status_ok,
             Called (Write (TransactionDB 7) (WriteOptions 0)
                       \<lparr>skip_concurrency_control = True, skip_duplicate_key_check = True\<rparr>
                       [OpDeleteRange (ColumnFamilyHandle 11) (convert_slice key_a) (convert_slice key_b)])
                    status_ok,
             WroteStatus status_ok])
   \<and> \<not> routed_exactly_once
         (events_of (del_range agreeing_engine two_family_bridge key_a key_b 1 status_unset []))
   \<and> length (engine_answers
         (events_of (del_range agreeing_engine two_family_bridge key_a key_b 1 status_unset []))) = 2
   \<and> length (adapter_inputs
         (events_of (del_range agreeing_engine two_family_bridge key_a key_b 1 status_unset []))) = 1"
  by (simp add: del_range_def cf_at_def engine_call_def write_status_call_def events_of_def
      two_family_bridge_def agreeing_engine_def copy_status_def status_ok_def ok_def Let_def)

text \<open>
  C7. For every path and in-range index, get_sst_writer first fetches from the base
  database the options in effect for the column family at that index, constructs the bulk
  writer from default environment options and those options, then opens the writer at the
  path; the status it leaves is the adapter's translation of the answer to that open call.
  The writer returned holds the fetched options and the default environment options.
\<close>

theorem get_sst_writer_fetches_options_then_opens:
  assumes "idx < length (cf_handles B)"
  shows "get_sst_writer E B path idx st tr =
     (let d = GetBaseDB E (db B);
          cf = cf_handles B ! idx;
          opts = GetOptions E tr d cf;
          w = \<lparr>inner = \<lparr>sfw_env_options = EnvOptions_default E, sfw_options = opts\<rparr>\<rparr>;
          tr1 = tr @ [GotOptions d cf opts];
          s = respond E tr1 (SstOpen (inner w) path)
      in (Some w, write_status E s st, tr1 @ [Called (SstOpen (inner w) path) s, WroteStatus s]))
   \<and> (\<exists>w st1 tr1. get_sst_writer E B path idx st tr = (Some w, st1, tr1)
        \<and> sfw_options (inner w) = GetOptions E tr (GetBaseDB E (db B)) (cf_handles B ! idx)
        \<and> sfw_env_options (inner w) = EnvOptions_default E)"
  by (simp add: get_sst_writer_events [OF assms] SstFileWriterBridge_new_def Let_def)

theorem get_sst_writer_fetches_options_then_opens_witness:
  "1 < length (cf_handles two_family_bridge)
   \<and> get_sst_writer agreeing_engine two_family_bridge ''a.sst'' 1 status_unset [] =
       (Some \<lparr>inner = \<lparr>sfw_env_options = EnvOptions 0, sfw_options = Options 11\<rparr>\<rparr>,
        \<lparr>rs_code = kOk, rs_message = None\<rparr>,
        [GotOptions (DB 7) (ColumnFamilyHandle 11) (Options 11),
         Called (SstOpen \<lparr>sfw_env_options = EnvOptions 0, sfw_options = Options 11\<rparr> ''a.sst'')
                status_ok,
         WroteStatus status_ok])
   \<and> (\<exists>w st1 tr1. get_sst_writer agreeing_engine two_family_bridge ''a.sst'' 1 status_unset []
          = (Some w, st1, tr1)
        \<and> sfw_options (inner w)
            = GetOptions agreeing_engine [] (GetBaseDB agreeing_engine (db two_family_bridge))
                (cf_handles two_family_bridge ! 1)
        \<and> sfw_env_options (inner w) = EnvOptions_default agreeing_engine)"
proof -
  have h: "1 < length (cf_handles two_family_bridge)"
    by (simp add: two_family_bridge_def)
  note inst = get_sst_writer_fetches_options_then_opens
    [OF h, of agreeing_engine "''a.sst''" status_unset "[]"]
  have e: "get_sst_writer agreeing_engine two_family_bridge ''a.sst'' 1 status_unset [] =
       (Some \<lparr>inner = \<lparr>sfw_env_options = EnvOptions 0, sfw_options = Options 11\<rparr>\<rparr>,
        \<lparr>rs_code = kOk, rs_message = None\<rparr>,
        [GotOptions (DB 7) (ColumnFamilyHandle 11) (Options 11),
         Called (SstOpen \<lparr>sfw_env_options = EnvOptions 0, sfw_options = Options 11\<rparr> ''a.sst'')
                status_ok,
         WroteStatus status_ok])"
    using inst [THEN conjunct1]
    by (simp add: Let_def agreeing_engine_def two_family_bridge_def copy_status_def status_ok_def)
  show ?thesis
    using h e inst [THEN conjunct2] by (intro conjI)
qed

text \<open>
  C9. If the engine refuses the delete-range request (a status that is not ok), del_range
  writes that status through the adapter and returns: the events it appends are the
  refused request and the adapter call, and no commit is among them.
\<close>

theorem del_range_refused_never_commits:
  assumes "idx < length (cf_handles B)"
    and "\<not> ok (respond E tr (BatchDeleteRange [] (cf_handles B ! idx) (convert_slice a) (convert_slice b)))"
  shows "del_range E B a b idx st tr =
     (let c = BatchDeleteRange [] (cf_handles B ! idx) (convert_slice a) (convert_slice b);
          s = respond E tr c
      in (write_status E s st, tr @ [Called c s, WroteStatus s]))
   \<and> commits (drop (length tr) (events_of (del_range E B a b idx st tr))) = []"
  by (simp add: del_range_refused_events [OF assms] events_of_def Let_def)

theorem del_range_refused_never_commits_witness:
  "1 < length (cf_handles two_family_bridge)
   \<and> \<not> ok (respond refusing_engine []
        (BatchDeleteRange [] (cf_handles two_family_bridge ! 1) (convert_slice key_b) (convert_slice key_a)))
   \<and> del_range refusing_engine two_family_bridge key_b key_a 1 status_unset []
     = (\<lparr>rs_code = kInvalidArgument, rs_message = Some ''refused''\<rparr>,
            [Called (BatchDeleteRange [] (ColumnFamilyHandle 11) (convert_slice key_b) (convert_slice key_a))
                    status_invalid,
             WroteStatus status_invalid])
   \<and> commits (drop (length ([] :: event list))
        (events_of (del_range refusing_engine two_family_bridge key_b key_a 1 status_unset []))) = []"
proof -
  have h: "1 < length (cf_handles two_family_bridge)"
    by (simp add: two_family_bridge_def)
  have k: "\<not> ok (respond refusing_engine []
        (BatchDeleteRange [] (cf_handles two_family_bridge ! 1) (convert_slice key_b) (convert_slice key_a)))"
    by (simp add: refusing_engine_def agreeing_engine_def ok_def status_invalid_def)
  show ?thesis
    using h k del_range_refused_never_commits [OF h k, of status_unset]
    by (simp add: Let_def refusing_engine_def agreeing_engine_def two_family_bridge_def
        copy_status_def status_invalid_def events_of_def)
qed

text \<open>
  C10. For an in-range index, get_sst_writer returns a writer that is not null whatever the
  open call answered; that answer, ok or not, reaches the caller only as the adapter's
  output in the status parameter. The instance below is an open that fails with an I/O
  error: the writer is returned all the same.
\<close>

theorem get_sst_writer_never_null:
  assumes "idx < length (cf_handles B)"
  shows "\<exists>w s new. get_sst_writer E B path idx st tr = (Some w, write_status E s st, tr @ new)
     \<and> engine_answers new = [s] \<and> adapter_inputs new = [s]
     \<and> last new = WroteStatus s \<and> Called (SstOpen (inner w) path) s \<in> set new"
  by (simp add: get_sst_writer_events [OF assms] Let_def)

theorem get_sst_writer_never_null_witness:
  "1 < length (cf_handles two_family_bridge)
   \<and> \<not> ok status_io
   \<and> get_sst_writer refusing_engine two_family_bridge ''/no/such/dir/b.sst'' 1 status_unset [] =
       (Some \<lparr>inner = \<lparr>sfw_env_options = EnvOptions 0, sfw_options = Options 11\<rparr>\<rparr>,
            \<lparr>rs_code = kIOError, rs_message = Some ''cannot open''\<rparr>,
            [GotOptions (DB 7) (ColumnFamilyHandle 11) (Options 11),
             Called (SstOpen \<lparr>sfw_env_options = EnvOptions 0, sfw_options = Options 11\<rparr>
                       ''/no/such/dir/b.sst'') status_io,
             WroteStatus status_io])
   \<and> (\<exists>w s new. get_sst_writer refusing_engine two_family_bridge ''/no/such/dir/b.sst'' 1 status_unset []
          = (Some w, write_status refusing_engine s status_unset, [] @ new)
        \<and> engine_answers new = [s] \<and> adapter_inputs new = [s]
        \<and> last new = WroteStatus s \<and> Called (SstOpen (inner w) ''/no/such/dir/b.sst'') s \<in> set new)"
proof -
  have h: "1 < length (cf_handles two_family_bridge)"
    by (simp add: two_family_bridge_def)
  have k: "\<not> ok status_io"
    by (simp add: ok_def status_io_def)
  have e: "get_sst_writer refusing_engine two_family_bridge ''/no/such/dir/b.sst'' 1 status_unset [] =
       (Some \<lparr>inner = \<lparr>sfw_env_options = EnvOptions 0, sfw_options = Options 11\<rparr>\<rparr>,
            \<lparr>rs_code = kIOError, rs_message = Some ''cannot open''\<rparr>,
            [GotOptions (DB 7) (ColumnFamilyHandle 11) (Options 11),
             Called (SstOpen \<lparr>sfw_env_options = EnvOptions 0, sfw_options = Options 11\<rparr>
                       ''/no/such/dir/b.sst'') status_io,
             WroteStatus status_io])"
    by (simp add: get_sst_writer_def get_base_db_def cf_at_def get_options_call_def engine_call_def
        write_status_call_def SstFileWriterBridge_new_def refusing_engine_def agreeing_engine_def
        two_family_bridge_def copy_status_def status_io_def Let_def)
  show ?thesis
    using h k e get_sst_writer_never_null [OF h, of refusing_engine "''/no/such/dir/b.sst''" status_unset "[]"]
    by (intro conjI)
qed

end
